theory Spec2Isabelle
  imports Complex_Main
begin

section \<open>Data model (budgetDb.ts, conflictResolution.ts)\<close>

text \<open>
  A JavaScript \<^verbatim>\<open>Date\<close> holds a time value: a whole number of milliseconds since the
  epoch, or NaN for an Invalid Date. \<^verbatim>\<open>getTime()\<close> returns that number; \<open>None\<close> stands
  for NaN. Time values are integers below \<open>2^53\<close> in magnitude, so the comparisons below
  are exact on them.
\<close>

datatype jsdate = DateMs int | InvalidDate

fun getTime :: "jsdate \<Rightarrow> int option" where
  "getTime (DateMs t) = Some t"
| "getTime InvalidDate = None"

text \<open>The number comparisons of JavaScript: every comparison with NaN is false.\<close>

fun js_gt :: "int option \<Rightarrow> int option \<Rightarrow> bool" where
  "js_gt (Some a) (Some b) = (a > b)"
| "js_gt _ _ = False"

fun js_ge :: "int option \<Rightarrow> int option \<Rightarrow> bool" where
  "js_ge (Some a) (Some b) = (a \<ge> b)"
| "js_ge _ _ = False"

fun js_sub :: "int option \<Rightarrow> int option \<Rightarrow> int option" where
  "js_sub (Some a) (Some b) = Some (a - b)"
| "js_sub _ _ = None"

fun js_abs :: "int option \<Rightarrow> int option" where
  "js_abs (Some a) = Some \<bar>a\<bar>"
| "js_abs None = None"

datatype ItemType = income | expense

text \<open>
  \<^verbatim>\<open>interface BudgetItem\<close>. The fields \<^verbatim>\<open>id\<close> and \<^verbatim>\<open>type\<close> are written \<open>item_id\<close> and
  \<open>item_type\<close>. Amounts are only copied by the functions modelled here.
\<close>

record BudgetItem =
  item_id :: string
  category :: string
  description :: string
  amount :: real
  item_type :: ItemType
  date :: jsdate
  synced :: bool
  updatedAt :: jsdate
  createdAt :: jsdate
  deleted :: bool

text \<open>
  \<^verbatim>\<open>interface ServerBudgetItem\<close>: the same fields with the three timestamps as ISO strings
  and no \<^verbatim>\<open>synced\<close> flag. Its fields carry the prefix \<open>srv_\<close>.
\<close>

record ServerBudgetItem =
  srv_id :: string
  srv_category :: string
  srv_description :: string
  srv_amount :: real
  srv_type :: ItemType
  srv_date :: string
  srv_updatedAt :: string
  srv_createdAt :: string
  srv_deleted :: bool

datatype ConflictType = update | delete_local | delete_server | both_modified

record SyncConflict =
  localItem :: BudgetItem
  serverItem :: ServerBudgetItem
  conflictType :: ConflictType

datatype ConflictResolution = keep_local | keep_server | merge | pending

text \<open>\<^verbatim>\<open>interface ResolvedConflict extends SyncConflict\<close>; an absent \<^verbatim>\<open>mergedItem\<close> is \<open>None\<close>.\<close>

record ResolvedConflict = SyncConflict +
  resolution :: ConflictResolution
  mergedItem :: "BudgetItem option"

section \<open>Conflict detection and resolution (conflictResolution.ts)\<close>

text \<open>
  \<^verbatim>\<open>new Date(isoString)\<close> belongs to the JavaScript runtime; it is the parameter \<open>parse\<close>
  of every function that reads a server timestamp.
\<close>

definition TIME_TOLERANCE :: int where
  "TIME_TOLERANCE = 1000"

definition detectConflict ::
  "(string \<Rightarrow> jsdate) \<Rightarrow> BudgetItem \<Rightarrow> ServerBudgetItem \<Rightarrow> SyncConflict option" where
  "detectConflict parse l s =
     (let localUpdated = getTime (updatedAt l);
          serverUpdated = getTime (parse (srv_updatedAt s))
      in if deleted l \<and> \<not> srv_deleted s then
           (if js_gt serverUpdated localUpdated
            then Some \<lparr>localItem = l, serverItem = s, conflictType = delete_local\<rparr>
            else None)
         else if \<not> deleted l \<and> srv_deleted s then
           (if js_gt localUpdated serverUpdated
            then Some \<lparr>localItem = l, serverItem = s, conflictType = delete_server\<rparr>
            else None)
         else if js_gt (js_abs (js_sub localUpdated serverUpdated)) (Some TIME_TOLERANCE)
           then Some \<lparr>localItem = l, serverItem = s, conflictType = both_modified\<rparr>
           else None)"

text \<open>
  \<^verbatim>\<open>{...conflict, resolution: ...}\<close> copies the three fields of the conflict and adds the
  resolution; no \<^verbatim>\<open>mergedItem\<close> is set.
\<close>

definition autoResolveConflict :: "(string \<Rightarrow> jsdate) \<Rightarrow> SyncConflict \<Rightarrow> ResolvedConflict" where
  "autoResolveConflict parse c =
     (let localUpdated = getTime (updatedAt (localItem c));
          serverUpdated = getTime (parse (srv_updatedAt (serverItem c)))
      in if js_ge localUpdated serverUpdated
         then \<lparr>localItem = localItem c, serverItem = serverItem c, conflictType = conflictType c,
               resolution = keep_local, mergedItem = None\<rparr>
         else \<lparr>localItem = localItem c, serverItem = serverItem c, conflictType = conflictType c,
               resolution = keep_server, mergedItem = None\<rparr>)"

text \<open>\<open>now\<close> is the reading of the clock by \<^verbatim>\<open>new Date()\<close>.\<close>

definition mergeItems :: "(string \<Rightarrow> jsdate) \<Rightarrow> int \<Rightarrow> BudgetItem \<Rightarrow> ServerBudgetItem \<Rightarrow> BudgetItem" where
  "mergeItems parse now l s =
     (let localUpdated = getTime (updatedAt l);
          serverUpdated = getTime (parse (srv_updatedAt s))
      in \<lparr>item_id = item_id l,
          category = (if js_ge localUpdated serverUpdated then category l else srv_category s),
          description = (if js_ge localUpdated serverUpdated then description l else srv_description s),
          amount = (if js_ge localUpdated serverUpdated then amount l else srv_amount s),
          item_type = (if js_ge localUpdated serverUpdated then item_type l else srv_type s),
          date = (if js_ge localUpdated serverUpdated then date l else parse (srv_date s)),
          synced = False,
          updatedAt = DateMs now,
          createdAt = createdAt l,
          deleted = False\<rparr>)"

definition serverItemToLocal :: "(string \<Rightarrow> jsdate) \<Rightarrow> ServerBudgetItem \<Rightarrow> BudgetItem" where
  "serverItemToLocal parse s =
     \<lparr>item_id = srv_id s,
      category = srv_category s,
      description = srv_description s,
      amount = srv_amount s,
      item_type = srv_type s,
      date = parse (srv_date s),
      synced = True,
      updatedAt = parse (srv_updatedAt s),
      createdAt = parse (srv_createdAt s),
      deleted = srv_deleted s\<rparr>"

text \<open>
  \<^verbatim>\<open>resolved.mergedItem || mergeItems(...)\<close>: an object is truthy, so a present merged item
  is returned as it is. The clock is read only when \<^verbatim>\<open>mergeItems\<close> runs.
\<close>

definition applyResolution :: "(string \<Rightarrow> jsdate) \<Rightarrow> int \<Rightarrow> ResolvedConflict \<Rightarrow> BudgetItem" where
  "applyResolution parse now r =
     (case resolution r of
        keep_local \<Rightarrow> (localItem r)\<lparr>synced := False\<rparr>
      | keep_server \<Rightarrow> serverItemToLocal parse (serverItem r)
      | merge \<Rightarrow> (case mergedItem r of
                   Some m \<Rightarrow> m
                 | None \<Rightarrow> mergeItems parse now (localItem r) (serverItem r))
      | pending \<Rightarrow> localItem r)"

section \<open>The local store (budgetDb.ts)\<close>

text \<open>
  The Lovefield table \<^verbatim>\<open>BudgetItems\<close> is the list of its rows in row order; the primary
  key is the \<^verbatim>\<open>id\<close> column. \<^verbatim>\<open>insertOrReplace\<close> overwrites the row that has the key of
  the new row and keeps its place, or appends a new row; \<^verbatim>\<open>select ... where id = i\<close> and
  \<^verbatim>\<open>delete ... where id = i\<close> filter by the key.
\<close>

definition selectById :: "BudgetItem list \<Rightarrow> string \<Rightarrow> BudgetItem list" where
  "selectById rows i = filter (\<lambda>r. item_id r = i) rows"

definition insertOrReplace :: "BudgetItem \<Rightarrow> BudgetItem list \<Rightarrow> BudgetItem list" where
  "insertOrReplace row rows =
     (if item_id row \<in> item_id ` set rows
      then map (\<lambda>r. if item_id r = item_id row then row else r) rows
      else rows @ [row])"

definition deleteById :: "string \<Rightarrow> BudgetItem list \<Rightarrow> BudgetItem list" where
  "deleteById i rows = filter (\<lambda>r. item_id r \<noteq> i) rows"

text \<open>The primary key constraint: no two rows share an id.\<close>

definition primary_key :: "BudgetItem list \<Rightarrow> bool" where
  "primary_key rows = distinct (map item_id rows)"

text \<open>
  \<^verbatim>\<open>Partial<BudgetItem>\<close>: each property is present (\<open>Some\<close>) or absent (\<open>None\<close>).
  \<open>spread old new\<close> is the value a property has after \<^verbatim>\<open>{...existing, ...updates}\<close>.
\<close>

record BudgetItemPartial =
  upd_id :: "string option"
  upd_category :: "string option"
  upd_description :: "string option"
  upd_amount :: "real option"
  upd_type :: "ItemType option"
  upd_date :: "jsdate option"
  upd_synced :: "bool option"
  upd_updatedAt :: "jsdate option"
  upd_createdAt :: "jsdate option"
  upd_deleted :: "bool option"

definition no_updates :: BudgetItemPartial where
  "no_updates =
     \<lparr>upd_id = None, upd_category = None, upd_description = None, upd_amount = None,
      upd_type = None, upd_date = None, upd_synced = None, upd_updatedAt = None,
      upd_createdAt = None, upd_deleted = None\<rparr>"

fun spread :: "'a \<Rightarrow> 'a option \<Rightarrow> 'a" where
  "spread old None = old"
| "spread old (Some v) = v"

text \<open>
  \<^verbatim>\<open>Omit<BudgetItem, 'id' | 'synced' | 'updatedAt' | 'createdAt' | 'deleted'>\<close>, the
  argument of \<^verbatim>\<open>addBudgetItem\<close>.
\<close>

record BudgetItemInput =
  in_category :: string
  in_description :: string
  in_amount :: real
  in_type :: ItemType
  in_date :: jsdate

text \<open>
  \<open>newId\<close> is the value of \<^verbatim>\<open>generateId()\<close>; \<open>tUpdated\<close> and \<open>tCreated\<close> are the two clock
  readings, in the order the object literal takes them.
\<close>

definition addBudgetItem ::
  "string \<Rightarrow> int \<Rightarrow> int \<Rightarrow> BudgetItemInput \<Rightarrow> BudgetItem list \<Rightarrow> BudgetItem \<times> BudgetItem list" where
  "addBudgetItem newId tUpdated tCreated item rows =
     (let newItem = \<lparr>item_id = newId, category = in_category item,
                      description = in_description item, amount = in_amount item,
                      item_type = in_type item, date = in_date item, synced = False,
                      updatedAt = DateMs tUpdated, createdAt = DateMs tCreated,
                      deleted = False\<rparr>
      in (newItem, insertOrReplace newItem rows))"

text \<open>The result is the returned item (\<open>None\<close> for \<^verbatim>\<open>null\<close>) and the table afterwards.\<close>

definition updateBudgetItem ::
  "int \<Rightarrow> string \<Rightarrow> BudgetItemPartial \<Rightarrow> BudgetItem list \<Rightarrow> BudgetItem option \<times> BudgetItem list" where
  "updateBudgetItem now i updates rows =
     (case selectById rows i of
        [] \<Rightarrow> (None, rows)
      | existingItem # _ \<Rightarrow>
          (let updatedItem =
                 \<lparr>item_id = i,
                  category = spread (category existingItem) (upd_category updates),
                  description = spread (description existingItem) (upd_description updates),
                  amount = spread (amount existingItem) (upd_amount updates),
                  item_type = spread (item_type existingItem) (upd_type updates),
                  date = spread (date existingItem) (upd_date updates),
                  synced = False,
                  updatedAt = DateMs now,
                  createdAt = spread (createdAt existingItem) (upd_createdAt updates),
                  deleted = spread (deleted existingItem) (upd_deleted updates)\<rparr>
           in (Some updatedItem, insertOrReplace updatedItem rows)))"

definition deleteBudgetItem :: "int \<Rightarrow> string \<Rightarrow> BudgetItem list \<Rightarrow> bool \<times> BudgetItem list" where
  "deleteBudgetItem now i rows =
     (case updateBudgetItem now i (no_updates\<lparr>upd_deleted := Some True, upd_synced := Some False\<rparr>) rows of
        (Some result, rows') \<Rightarrow> (True, rows')
      | (None, rows') \<Rightarrow> (False, rows'))"

definition hardDeleteBudgetItem :: "string \<Rightarrow> BudgetItem list \<Rightarrow> BudgetItem list" where
  "hardDeleteBudgetItem i rows = deleteById i rows"

definition getUnsyncedItems :: "BudgetItem list \<Rightarrow> BudgetItem list" where
  "getUnsyncedItems rows = filter (\<lambda>r. \<not> synced r) rows"

fun markItemsAsSynced :: "string list \<Rightarrow> BudgetItem list \<Rightarrow> BudgetItem list" where
  "markItemsAsSynced [] rows = rows"
| "markItemsAsSynced (i # ids) rows =
     markItemsAsSynced ids
       (case selectById rows i of
          [] \<Rightarrow> rows
        | item # _ \<Rightarrow>
            if deleted item then hardDeleteBudgetItem i rows
            else insertOrReplace (item\<lparr>synced := True\<rparr>) rows)"

section \<open>The sync pass (useOnlineSync.ts)\<close>

text \<open>The error messages of a pass, as values.\<close>

datatype sync_error =
    ConflictsDetected nat
  | InvalidTimeValue
  | PushFailed string
  | AlreadyInProgress
  | NoConnection

record SyncResult =
  success :: bool
  syncedIds :: "string list"
  failedIds :: "string list"
  conflicts :: "SyncConflict list"
  error :: "sync_error option"

text \<open>
  The server is a parameter. \<open>fetch ids\<close> is the map that \<^verbatim>\<open>fetchServerItems\<close> returns
  (the empty map when the request fails). \<open>push batch\<close> is the outcome of the POST to
  \<^verbatim>\<open>/api/budget/sync\<close>: the two optional id lists of an accepted reply, or the message of
  the error thrown.
\<close>

datatype push_reply =
    PushAccepted "string list option" "string list option"
  | PushRejected string

text \<open>The loop that sorts the candidates into conflicts and items to send.\<close>

fun checkItems ::
  "(string \<Rightarrow> jsdate) \<Rightarrow> (string \<Rightarrow> ServerBudgetItem option) \<Rightarrow> BudgetItem list \<Rightarrow>
   SyncConflict list \<Rightarrow> BudgetItem list \<Rightarrow> SyncConflict list \<times> BudgetItem list" where
  "checkItems parse serverItems [] cs itemsToSync = (cs, itemsToSync)"
| "checkItems parse serverItems (l # ls) cs itemsToSync =
     (case serverItems (item_id l) of
        Some s \<Rightarrow>
          (case detectConflict parse l s of
             Some c \<Rightarrow> checkItems parse serverItems ls (cs @ [c]) itemsToSync
           | None \<Rightarrow> checkItems parse serverItems ls cs (itemsToSync @ [l]))
      | None \<Rightarrow> checkItems parse serverItems ls cs (itemsToSync @ [l]))"

text \<open>\<^verbatim>\<open>toISOString()\<close> throws a RangeError on an Invalid Date.\<close>

definition serializable :: "BudgetItem \<Rightarrow> bool" where
  "serializable r =
     (date r \<noteq> InvalidDate \<and> updatedAt r \<noteq> InvalidDate \<and> createdAt r \<noteq> InvalidDate)"

text \<open>
  The second component is the list of batches handed to the POST request, empty when no
  request is made.
\<close>

definition syncItemsToServer ::
  "(string \<Rightarrow> jsdate) \<Rightarrow> (string list \<Rightarrow> string \<Rightarrow> ServerBudgetItem option) \<Rightarrow>
   (BudgetItem list \<Rightarrow> push_reply) \<Rightarrow> BudgetItem list \<Rightarrow> SyncResult \<times> BudgetItem list list" where
  "syncItemsToServer parse fetch push items =
     (let serverItems = fetch (map item_id items);
          (cs, itemsToSync) = checkItems parse serverItems items [] []
      in if length cs > 0 then
           (\<lparr>success = False, syncedIds = [], failedIds = [], conflicts = cs,
             error = Some (ConflictsDetected (length cs))\<rparr>, [])
         else if length itemsToSync = 0 then
           (\<lparr>success = True, syncedIds = [], failedIds = [], conflicts = [], error = None\<rparr>, [])
         else if \<not> list_all serializable itemsToSync then
           (\<lparr>success = False, syncedIds = [], failedIds = map item_id items, conflicts = [],
             error = Some InvalidTimeValue\<rparr>, [])
         else
           (case push itemsToSync of
              PushAccepted accepted failed \<Rightarrow>
                (\<lparr>success = True,
                  syncedIds = (case accepted of Some ids \<Rightarrow> ids | None \<Rightarrow> map item_id itemsToSync),
                  failedIds = (case failed of Some ids \<Rightarrow> ids | None \<Rightarrow> []),
                  conflicts = [], error = None\<rparr>, [itemsToSync])
            | PushRejected msg \<Rightarrow>
                (\<lparr>success = False, syncedIds = [], failedIds = map item_id items, conflicts = [],
                  error = Some (PushFailed msg)\<rparr>, [itemsToSync])))"

text \<open>
  What a pass reads and writes: the table, the hook's \<^verbatim>\<open>conflicts\<close>, \<^verbatim>\<open>syncError\<close> and
  \<^verbatim>\<open>lastSyncTime\<close> state, and the batches posted to the server so far.
\<close>

record SyncWorld =
  budgetItems :: "BudgetItem list"
  conflictsState :: "SyncConflict list"
  syncError :: "sync_error option"
  lastSyncTime :: "int option"
  posted :: "BudgetItem list list"

text \<open>
  \<^verbatim>\<open>else if (result.error)\<close> tests a string: an absent error and an empty message are
  both falsy.
\<close>

fun error_truthy :: "sync_error option \<Rightarrow> bool" where
  "error_truthy None = False"
| "error_truthy (Some (PushFailed msg)) = (msg \<noteq> [])"
| "error_truthy (Some _) = True"

text \<open>
  \<open>busy\<close> is \<^verbatim>\<open>syncInProgress.current || isSyncing\<close>, \<open>online\<close> is \<^verbatim>\<open>navigator.onLine\<close>,
  \<open>now\<close> the clock reading for \<^verbatim>\<open>setLastSyncTime\<close>.
\<close>

definition triggerSync ::
  "(string \<Rightarrow> jsdate) \<Rightarrow> (string list \<Rightarrow> string \<Rightarrow> ServerBudgetItem option) \<Rightarrow>
   (BudgetItem list \<Rightarrow> push_reply) \<Rightarrow> bool \<Rightarrow> bool \<Rightarrow> int \<Rightarrow> SyncWorld \<Rightarrow> SyncResult \<times> SyncWorld" where
  "triggerSync parse fetch push busy online now w =
     (if busy then
        (\<lparr>success = False, syncedIds = [], failedIds = [], conflicts = [],
          error = Some AlreadyInProgress\<rparr>, w)
      else if \<not> online then
        (\<lparr>success = False, syncedIds = [], failedIds = [], conflicts = [],
          error = Some NoConnection\<rparr>, w)
      else
        (let w1 = w\<lparr>syncError := None\<rparr>;
             unsyncedItems = getUnsyncedItems (budgetItems w1)
         in if length unsyncedItems = 0 then
              (\<lparr>success = True, syncedIds = [], failedIds = [], conflicts = [], error = None\<rparr>,
               w1\<lparr>lastSyncTime := Some now\<rparr>)
            else
              (let (result, batches) = syncItemsToServer parse fetch push unsyncedItems;
                   w2 = w1\<lparr>posted := posted w1 @ batches\<rparr>
               in if length (conflicts result) > 0 then
                    (result, w2\<lparr>conflictsState := conflicts result\<rparr>)
                  else if success result \<and> length (syncedIds result) > 0 then
                    (result, w2\<lparr>budgetItems := markItemsAsSynced (syncedIds result) (budgetItems w2),
                                 lastSyncTime := Some now\<rparr>)
                  else if error_truthy (error result) then
                    (result, w2\<lparr>syncError := error result\<rparr>)
                  else (result, w2))))"

text \<open>
  Each resolution comes with the clock readings of its iteration: \<open>tMerge\<close> for
  \<^verbatim>\<open>mergeItems\<close> inside \<^verbatim>\<open>applyResolution\<close>, \<open>tUpdate\<close> for \<^verbatim>\<open>updateBudgetItem\<close>.
\<close>

fun resolveConflicts ::
  "(string \<Rightarrow> jsdate) \<Rightarrow> (ResolvedConflict \<times> int \<times> int) list \<Rightarrow> BudgetItem list \<Rightarrow> BudgetItem list" where
  "resolveConflicts parse [] rows = rows"
| "resolveConflicts parse ((resolved, tMerge, tUpdate) # rest) rows =
     (let finalItem = applyResolution parse tMerge resolved
      in resolveConflicts parse rest
           (if resolution resolved = keep_server \<and> srv_deleted (serverItem resolved) then
              hardDeleteBudgetItem (item_id (localItem resolved)) rows
            else
              snd (updateBudgetItem tUpdate (item_id (localItem resolved))
                     (no_updates\<lparr>upd_category := Some (category finalItem),
                                 upd_description := Some (description finalItem),
                                 upd_amount := Some (amount finalItem),
                                 upd_type := Some (item_type finalItem),
                                 upd_date := Some (date finalItem),
                                 upd_synced := Some (synced finalItem),
                                 upd_deleted := Some (deleted finalItem)\<rparr>)
                     rows)))"

section \<open>The mutation outbox (offlineDb.ts) and its replay (syncNow)\<close>

text \<open>
  \<^verbatim>\<open>interface MutationRequest\<close>, with \<^verbatim>\<open>id\<close> and \<^verbatim>\<open>createdAt\<close> written \<open>mut_id\<close> and
  \<open>mut_createdAt\<close>. The creation time is always a reading of the clock, so it is a time
  value. The table \<^verbatim>\<open>MutationQueue\<close> is the list of its rows in row order.
\<close>

record 'v MutationRequest =
  mut_id :: string
  mutationKey :: string
  variables :: 'v
  mut_createdAt :: int

text \<open>\<open>newId\<close> is the value of \<^verbatim>\<open>crypto.randomUUID()\<close>, \<open>now\<close> the clock reading.\<close>

definition queueMutation ::
  "string \<Rightarrow> int \<Rightarrow> string \<Rightarrow> 'v \<Rightarrow> 'v MutationRequest list \<Rightarrow> 'v MutationRequest list" where
  "queueMutation newId now key vars q =
     (let row = \<lparr>mut_id = newId, mutationKey = key, variables = vars, mut_createdAt = now\<rparr>
      in if newId \<in> mut_id ` set q
         then map (\<lambda>r. if mut_id r = newId then row else r) q
         else q @ [row])"

text \<open>
  \<^verbatim>\<open>orderBy(createdAt, ASC)\<close> sorts the rows of the table scan; the sort is stable, so
  rows of equal creation time stay in row order.
\<close>

definition getQueuedMutations :: "'v MutationRequest list \<Rightarrow> 'v MutationRequest list" where
  "getQueuedMutations q = sort_key mut_createdAt q"

definition removeMutationFromQueue :: "string \<Rightarrow> 'v MutationRequest list \<Rightarrow> 'v MutationRequest list" where
  "removeMutationFromQueue i q = filter (\<lambda>r. mut_id r \<noteq> i) q"

definition mutation_keys :: "string list" where
  "mutation_keys =
     [''createBudget'', ''updateBudget'', ''createExpense'', ''deleteExpense'', ''createIncome'',
      ''createBankAccount'', ''updateBankAccount'', ''deleteBankAccount'', ''updateCashWallet'',
      ''createLoan'', ''processLoanPayment'', ''createSavingsTarget'', ''updateSavingsTarget'',
      ''deleteSavingsTarget'', ''contributeToSavings'', ''markAlertAsRead'', ''deleteAlert'']"

text \<open>
  The REST API is a parameter: \<open>api srv key vars\<close> runs the call named \<open>key\<close> against the
  server state \<open>srv\<close> and tells whether it returned (\<open>True\<close>) or threw (\<open>False\<close>). An unknown
  key throws without any call.
\<close>

definition executeMutationHelper ::
  "('w \<Rightarrow> string \<Rightarrow> 'v \<Rightarrow> bool \<times> 'w) \<Rightarrow> 'w \<Rightarrow> string \<Rightarrow> 'v \<Rightarrow> bool \<times> 'w" where
  "executeMutationHelper api srv key vars =
     (if key \<in> set mutation_keys then api srv key vars else (False, srv))"

text \<open>
  The state of a replay: the queue table, the server, the two counters, and the entries
  handed to \<^verbatim>\<open>executeMutationHelper\<close> so far, each with its outcome.
\<close>

record ('v, 'w) ReplayState =
  outbox :: "'v MutationRequest list"
  remote :: 'w
  successCount :: nat
  failCount :: nat
  attempts :: "('v MutationRequest \<times> bool) list"

fun replayQueue ::
  "('w \<Rightarrow> string \<Rightarrow> 'v \<Rightarrow> bool \<times> 'w) \<Rightarrow> 'v MutationRequest list \<Rightarrow>
   ('v, 'w) ReplayState \<Rightarrow> ('v, 'w) ReplayState" where
  "replayQueue api [] st = st"
| "replayQueue api (item # queue) st =
     (case executeMutationHelper api (remote st) (mutationKey item) (variables item) of
        (True, srv') \<Rightarrow>
          replayQueue api queue
            (st\<lparr>outbox := removeMutationFromQueue (mut_id item) (outbox st),
                remote := srv',
                successCount := successCount st + 1,
                attempts := attempts st @ [(item, True)]\<rparr>)
      | (False, srv') \<Rightarrow>
          replayQueue api queue
            (st\<lparr>remote := srv',
                failCount := failCount st + 1,
                attempts := attempts st @ [(item, False)]\<rparr>))"

text \<open>The counters and the log start afresh on every call.\<close>

definition syncNow ::
  "('w \<Rightarrow> string \<Rightarrow> 'v \<Rightarrow> bool \<times> 'w) \<Rightarrow> bool \<Rightarrow> bool \<Rightarrow> 'v MutationRequest list \<Rightarrow> 'w \<Rightarrow>
   ('v, 'w) ReplayState" where
  "syncNow api online isSyncing q srv =
     (let st0 = \<lparr>outbox = q, remote = srv, successCount = 0, failCount = 0, attempts = []\<rparr>
      in if \<not> online \<or> isSyncing then st0
         else (let queue = getQueuedMutations q
               in if length queue = 0 then st0 else replayQueue api queue st0))"

section \<open>The partition of the specification\<close>

text \<open>
  The specification has the candidates of a pass partitioned by \<^verbatim>\<open>detectConflict\<close> into
  conflicting and safe ones. These two definitions follow its words, to be compared with
  the loop \<open>checkItems\<close> of the code: the conflicts reported for the candidates that have
  a server copy, and the candidates for which none is reported, each in candidate order.
\<close>

definition spec_conflicting ::
  "(string \<Rightarrow> jsdate) \<Rightarrow> (string \<Rightarrow> ServerBudgetItem option) \<Rightarrow> BudgetItem list \<Rightarrow> SyncConflict list" where
  "spec_conflicting parse serverItems items =
     List.map_filter
       (\<lambda>l. case serverItems (item_id l) of Some s \<Rightarrow> detectConflict parse l s | None \<Rightarrow> None)
       items"

definition spec_safe ::
  "(string \<Rightarrow> jsdate) \<Rightarrow> (string \<Rightarrow> ServerBudgetItem option) \<Rightarrow> BudgetItem list \<Rightarrow> BudgetItem list" where
  "spec_safe parse serverItems items =
     filter
       (\<lambda>l. (case serverItems (item_id l) of Some s \<Rightarrow> detectConflict parse l s | None \<Rightarrow> None) = None)
       items"

section \<open>Sample data\<close>

text \<open>
  The scenario of the divergent edit: a local item last updated at time 0 with amount
  100, and its server copy updated 5000 ms later with amount 200. \<open>sample_parse\<close> reads
  the two ISO strings that occur in it and takes every other string for an Invalid Date.
\<close>

definition sample_parse :: "string \<Rightarrow> jsdate" where
  "sample_parse str =
     (if str = ''1970-01-01T00:00:00.000Z'' then DateMs 0
      else if str = ''1970-01-01T00:00:05.000Z'' then DateMs 5000
      else InvalidDate)"

definition sample_local :: BudgetItem where
  "sample_local =
     \<lparr>item_id = ''a'', category = ''food'', description = ''lunch'', amount = 100,
      item_type = expense, date = DateMs 0, synced = False, updatedAt = DateMs 0,
      createdAt = DateMs 0, deleted = False\<rparr>"

definition sample_server :: ServerBudgetItem where
  "sample_server =
     \<lparr>srv_id = ''a'', srv_category = ''food'', srv_description = ''dinner'', srv_amount = 200,
      srv_type = expense, srv_date = ''1970-01-01T00:00:00.000Z'',
      srv_updatedAt = ''1970-01-01T00:00:05.000Z'',
      srv_createdAt = ''1970-01-01T00:00:00.000Z'', srv_deleted = False\<rparr>"

text \<open>
  A server that knows the sample item and accepts every batch, and the table and hook
  state of a client that holds the local sample item.
\<close>

definition sample_fetch :: "string list \<Rightarrow> string \<Rightarrow> ServerBudgetItem option" where
  "sample_fetch ids = [''a'' \<mapsto> sample_server]"

definition sample_push :: "BudgetItem list \<Rightarrow> push_reply" where
  "sample_push batch = PushAccepted None None"

definition sample_world :: SyncWorld where
  "sample_world =
     \<lparr>budgetItems = [sample_local], conflictsState = [], syncError = None,
      lastSyncTime = None, posted = []\<rparr>"

text \<open>
  Two outboxes, each with \<open>createBudget\<close> enqueued before \<open>updateBudget\<close>: in the first
  the clock advances between the two calls, in the second it goes back. And two APIs
  over a server without state: one where every call returns, one where \<open>createBudget\<close>
  throws.
\<close>

definition sample_outbox :: "unit MutationRequest list" where
  "sample_outbox =
     queueMutation ''m2'' 20 ''updateBudget'' () (queueMutation ''m1'' 10 ''createBudget'' () [])"

definition sample_outbox_clock_back :: "unit MutationRequest list" where
  "sample_outbox_clock_back =
     queueMutation ''m2'' 5 ''updateBudget'' () (queueMutation ''m1'' 10 ''createBudget'' () [])"

definition sample_api :: "unit \<Rightarrow> string \<Rightarrow> unit \<Rightarrow> bool \<times> unit" where
  "sample_api srv key vars = (True, srv)"

definition sample_api_create_fails :: "unit \<Rightarrow> string \<Rightarrow> unit \<Rightarrow> bool \<times> unit" where
  "sample_api_create_fails srv key vars = (key \<noteq> ''createBudget'', srv)"

section \<open>Properties of conflict detection and resolution\<close>

text \<open>
  C1. \<^verbatim>\<open>detectConflict\<close> classifies as the algorithm of the specification does. With \<open>L\<close>
  the local and \<open>S\<close> the server time value: a locally deleted item whose server copy is
  alive is a \<open>delete_local\<close> conflict iff \<open>S > L\<close>; an alive local item whose server copy
  is deleted is a \<open>delete_server\<close> conflict iff \<open>L > S\<close>; when both are alive or both are
  deleted the pair is a \<open>both_modified\<close> conflict iff \<open>\<bar>L - S\<bar> > 1000\<close>; otherwise there
  is no conflict. An Invalid Date on either side gives no conflict, every comparison
  with NaN being false.
\<close>

theorem detectConflict_classifies:
  "(updatedAt l = DateMs L \<and> parse (srv_updatedAt s) = DateMs S \<longrightarrow>
      (deleted l \<and> \<not> srv_deleted s \<longrightarrow>
         detectConflict parse l s =
           (if S > L then Some \<lparr>localItem = l, serverItem = s, conflictType = delete_local\<rparr>
            else None)) \<and>
      (\<not> deleted l \<and> srv_deleted s \<longrightarrow>
         detectConflict parse l s =
           (if L > S then Some \<lparr>localItem = l, serverItem = s, conflictType = delete_server\<rparr>
            else None)) \<and>
      (deleted l = srv_deleted s \<longrightarrow>
         detectConflict parse l s =
           (if \<bar>L - S\<bar> > 1000
            then Some \<lparr>localItem = l, serverItem = s, conflictType = both_modified\<rparr>
            else None))) \<and>
   (updatedAt l = InvalidDate \<or> parse (srv_updatedAt s) = InvalidDate \<longrightarrow>
      detectConflict parse l s = None)"
  by (cases "updatedAt l"; cases "parse (srv_updatedAt s)")
     (auto simp: detectConflict_def TIME_TOLERANCE_def Let_def)

theorem detectConflict_classifies_witness:
  "updatedAt sample_local = DateMs 0 \<and>
   sample_parse (srv_updatedAt sample_server) = DateMs 5000 \<and>
   deleted sample_local = srv_deleted sample_server \<and>
   detectConflict sample_parse sample_local sample_server =
     Some \<lparr>localItem = sample_local, serverItem = sample_server, conflictType = both_modified\<rparr> \<and>
   detectConflict sample_parse (sample_local\<lparr>deleted := True\<rparr>) sample_server =
     Some \<lparr>localItem = sample_local\<lparr>deleted := True\<rparr>, serverItem = sample_server,
           conflictType = delete_local\<rparr> \<and>
   detectConflict sample_parse (sample_local\<lparr>updatedAt := DateMs 9000\<rparr>)
       (sample_server\<lparr>srv_deleted := True\<rparr>) =
     Some \<lparr>localItem = sample_local\<lparr>updatedAt := DateMs 9000\<rparr>,
           serverItem = sample_server\<lparr>srv_deleted := True\<rparr>, conflictType = delete_server\<rparr> \<and>
   detectConflict sample_parse (sample_local\<lparr>updatedAt := DateMs 4000\<rparr>) sample_server = None \<and>
   detectConflict sample_parse (sample_local\<lparr>updatedAt := InvalidDate\<rparr>) sample_server = None"
  using detectConflict_classifies [of sample_local 0 sample_parse sample_server 5000]
    detectConflict_classifies [of "sample_local\<lparr>deleted := True\<rparr>" 0 sample_parse sample_server 5000]
    detectConflict_classifies [of "sample_local\<lparr>updatedAt := DateMs 9000\<rparr>" 9000 sample_parse
       "sample_server\<lparr>srv_deleted := True\<rparr>" 5000]
    detectConflict_classifies [of "sample_local\<lparr>updatedAt := DateMs 4000\<rparr>" 4000 sample_parse sample_server 5000]
    detectConflict_classifies [of "sample_local\<lparr>updatedAt := InvalidDate\<rparr>" 0 sample_parse sample_server 0]
  by (simp add: sample_parse_def sample_local_def sample_server_def)

text \<open>
  C6. \<^verbatim>\<open>autoResolveConflict\<close> returns the conflict it was given with resolution
  \<open>keep_local\<close> iff \<open>L \<ge> S\<close> and \<open>keep_server\<close> otherwise; a \<open>both_modified\<close> conflict
  whose server copy is 5000 ms newer is resolved as \<open>keep_server\<close>. With an Invalid Date
  on either side the comparison is false and the resolution is \<open>keep_server\<close>.
\<close>

theorem autoResolveConflict_last_write_wins:
  "localItem (autoResolveConflict parse c) = localItem c \<and>
   serverItem (autoResolveConflict parse c) = serverItem c \<and>
   conflictType (autoResolveConflict parse c) = conflictType c \<and>
   (updatedAt (localItem c) = DateMs L \<and> parse (srv_updatedAt (serverItem c)) = DateMs S \<longrightarrow>
      (resolution (autoResolveConflict parse c) = keep_local \<longleftrightarrow> L \<ge> S) \<and>
      (resolution (autoResolveConflict parse c) = keep_server \<longleftrightarrow> \<not> L \<ge> S) \<and>
      (conflictType c = both_modified \<and> S = L + 5000 \<longrightarrow>
         resolution (autoResolveConflict parse c) = keep_server)) \<and>
   (updatedAt (localItem c) = InvalidDate \<or> parse (srv_updatedAt (serverItem c)) = InvalidDate \<longrightarrow>
      resolution (autoResolveConflict parse c) = keep_server)"
  by (cases "updatedAt (localItem c)"; cases "parse (srv_updatedAt (serverItem c))")
     (auto simp: autoResolveConflict_def Let_def)

theorem autoResolveConflict_last_write_wins_witness:
  "updatedAt sample_local = DateMs 0 \<and>
   sample_parse (srv_updatedAt sample_server) = DateMs (0 + 5000) \<and>
   resolution (autoResolveConflict sample_parse
      \<lparr>localItem = sample_local, serverItem = sample_server, conflictType = both_modified\<rparr>)
     = keep_server \<and>
   resolution (autoResolveConflict sample_parse
      \<lparr>localItem = sample_local\<lparr>updatedAt := DateMs 5000\<rparr>, serverItem = sample_server,
       conflictType = both_modified\<rparr>)
     = keep_local"
  using autoResolveConflict_last_write_wins
      [of sample_parse "\<lparr>localItem = sample_local, serverItem = sample_server,
         conflictType = both_modified\<rparr>" 0 5000]
    autoResolveConflict_last_write_wins
      [of sample_parse "\<lparr>localItem = sample_local\<lparr>updatedAt := DateMs 5000\<rparr>,
         serverItem = sample_server, conflictType = both_modified\<rparr>" 5000 5000]
  by (simp add: sample_parse_def sample_local_def sample_server_def)

text \<open>
  C9. \<^verbatim>\<open>mergeItems\<close> picks one whole record: category, description, amount, type and date
  all come from the local item when \<open>L \<ge> S\<close> and all from the server item otherwise (also
  when a date is invalid); the result is unsynced and its \<open>updatedAt\<close> is the merge time.
\<close>

theorem mergeItems_whole_record_pick:
  "synced (mergeItems parse now l s) = False \<and>
   updatedAt (mergeItems parse now l s) = DateMs now \<and>
   (updatedAt l = DateMs L \<and> parse (srv_updatedAt s) = DateMs S \<and> L \<ge> S \<longrightarrow>
      category (mergeItems parse now l s) = category l \<and>
      description (mergeItems parse now l s) = description l \<and>
      amount (mergeItems parse now l s) = amount l \<and>
      item_type (mergeItems parse now l s) = item_type l \<and>
      date (mergeItems parse now l s) = date l) \<and>
   (updatedAt l = DateMs L \<and> parse (srv_updatedAt s) = DateMs S \<and> \<not> L \<ge> S \<longrightarrow>
      category (mergeItems parse now l s) = srv_category s \<and>
      description (mergeItems parse now l s) = srv_description s \<and>
      amount (mergeItems parse now l s) = srv_amount s \<and>
      item_type (mergeItems parse now l s) = srv_type s \<and>
      date (mergeItems parse now l s) = parse (srv_date s)) \<and>
   (updatedAt l = InvalidDate \<or> parse (srv_updatedAt s) = InvalidDate \<longrightarrow>
      category (mergeItems parse now l s) = srv_category s \<and>
      description (mergeItems parse now l s) = srv_description s \<and>
      amount (mergeItems parse now l s) = srv_amount s \<and>
      item_type (mergeItems parse now l s) = srv_type s \<and>
      date (mergeItems parse now l s) = parse (srv_date s))"
  by (cases "updatedAt l"; cases "parse (srv_updatedAt s)")
     (auto simp: mergeItems_def Let_def)

theorem mergeItems_whole_record_pick_witness:
  "updatedAt sample_local = DateMs 0 \<and>
   sample_parse (srv_updatedAt sample_server) = DateMs 5000 \<and>
   amount (mergeItems sample_parse 7000 sample_local sample_server) = 200 \<and>
   description (mergeItems sample_parse 7000 sample_local sample_server) = ''dinner'' \<and>
   amount (mergeItems sample_parse 7000 (sample_local\<lparr>updatedAt := DateMs 6000\<rparr>) sample_server) = 100 \<and>
   description (mergeItems sample_parse 7000 (sample_local\<lparr>updatedAt := DateMs 6000\<rparr>) sample_server)
     = ''lunch'' \<and>
   amount (mergeItems sample_parse 7000 (sample_local\<lparr>updatedAt := InvalidDate\<rparr>) sample_server) = 200"
  using mergeItems_whole_record_pick [of sample_parse 7000 sample_local sample_server 0 5000]
    mergeItems_whole_record_pick
      [of sample_parse 7000 "sample_local\<lparr>updatedAt := DateMs 6000\<rparr>" sample_server 6000 5000]
    mergeItems_whole_record_pick
      [of sample_parse 7000 "sample_local\<lparr>updatedAt := InvalidDate\<rparr>" sample_server 0 0]
  by (simp add: sample_parse_def sample_local_def sample_server_def)

section \<open>Properties of the local store\<close>

subsection \<open>Selecting, replacing and deleting rows\<close>

lemma selectById_Cons_D:
  "selectById rows i = x # xs \<Longrightarrow> item_id x = i \<and> x \<in> set rows"
proof -
  assume "selectById rows i = x # xs"
  then have "x \<in> set (filter (\<lambda>r. item_id r = i) rows)"
    by (simp add: selectById_def)
  then show ?thesis by simp
qed

lemma insertOrReplace_present:
  "item_id row \<in> item_id ` set rows \<Longrightarrow>
   insertOrReplace row rows = map (\<lambda>r. if item_id r = item_id row then row else r) rows"
  by (simp add: insertOrReplace_def)

lemma selectById_replace:
  "selectById (map (\<lambda>r. if item_id r = item_id row then row else r) rows) j =
     (if j = item_id row then map (\<lambda>_. row) (selectById rows j) else selectById rows j)"
  unfolding selectById_def by (induction rows) auto

lemma selectById_insertOrReplace:
  "selectById (insertOrReplace row rows) j =
     (if j = item_id row
      then (if selectById rows j = [] then [row] else map (\<lambda>_. row) (selectById rows j))
      else selectById rows j)"
proof (cases "item_id row \<in> item_id ` set rows")
  case True
  then have "selectById rows (item_id row) \<noteq> []"
    unfolding selectById_def by (auto simp: filter_empty_conv)
  with True show ?thesis
    by (simp add: insertOrReplace_present selectById_replace)
next
  case False
  then have "selectById rows (item_id row) = []"
    unfolding selectById_def by (induction rows) auto
  with False show ?thesis
    by (auto simp: insertOrReplace_def selectById_def)
qed

lemma selectById_deleteById:
  "selectById (deleteById i rows) j = (if j = i then [] else selectById rows j)"
  unfolding selectById_def deleteById_def by (induction rows) auto

lemma primary_key_select:
  "primary_key rows \<Longrightarrow> selectById rows i = x # xs \<Longrightarrow> xs = []"
  unfolding primary_key_def selectById_def
proof (induction rows arbitrary: x xs)
  case Nil
  then show ?case by simp
next
  case (Cons r rows)
  show ?case
  proof (cases "item_id r = i")
    case True
    with Cons.prems have "filter (\<lambda>r. item_id r = i) rows = xs" by simp
    moreover from True Cons.prems have "i \<notin> item_id ` set rows" by auto
    then have "filter (\<lambda>r. item_id r = i) rows = []" by (auto simp: filter_empty_conv)
    ultimately show ?thesis by simp
  next
    case False
    with Cons show ?thesis by simp
  qed
qed

lemma primary_key_insertOrReplace:
  "primary_key rows \<Longrightarrow> primary_key (insertOrReplace row rows)"
proof (cases "item_id row \<in> item_id ` set rows")
  case True
  assume pk: "primary_key rows"
  have "map item_id (map (\<lambda>r. if item_id r = item_id row then row else r) rows) = map item_id rows"
    by (induction rows) auto
  with pk True show ?thesis by (simp add: insertOrReplace_def primary_key_def del: map_map)
next
  case False
  assume "primary_key rows"
  with False show ?thesis by (auto simp: insertOrReplace_def primary_key_def)
qed

lemma primary_key_deleteById:
  "primary_key rows \<Longrightarrow> primary_key (deleteById i rows)"
  by (simp add: primary_key_def deleteById_def distinct_map_filter)

lemma updateBudgetItem_absent:
  "selectById rows i = [] \<Longrightarrow> updateBudgetItem now i updates rows = (None, rows)"
  by (simp add: updateBudgetItem_def)

lemma updateBudgetItem_present:
  assumes "selectById rows i = existing # others"
  shows "updateBudgetItem now i updates rows =
     (Some \<lparr>item_id = i,
            category = spread (category existing) (upd_category updates),
            description = spread (description existing) (upd_description updates),
            amount = spread (amount existing) (upd_amount updates),
            item_type = spread (item_type existing) (upd_type updates),
            date = spread (date existing) (upd_date updates),
            synced = False,
            updatedAt = DateMs now,
            createdAt = spread (createdAt existing) (upd_createdAt updates),
            deleted = spread (deleted existing) (upd_deleted updates)\<rparr>,
      map (\<lambda>r. if item_id r = i
                then \<lparr>item_id = i,
                      category = spread (category existing) (upd_category updates),
                      description = spread (description existing) (upd_description updates),
                      amount = spread (amount existing) (upd_amount updates),
                      item_type = spread (item_type existing) (upd_type updates),
                      date = spread (date existing) (upd_date updates),
                      synced = False,
                      updatedAt = DateMs now,
                      createdAt = spread (createdAt existing) (upd_createdAt updates),
                      deleted = spread (deleted existing) (upd_deleted updates)\<rparr>
                else r) rows)"
proof -
  from assms have "item_id existing = i" "existing \<in> set rows"
    using selectById_Cons_D by blast+
  then have "i \<in> item_id ` set rows" by force
  with assms show ?thesis
    by (simp add: updateBudgetItem_def Let_def insertOrReplace_def)
qed

lemma markItemsAsSynced_step_select:
  "selectById
     (case selectById rows i of
        [] \<Rightarrow> rows
      | item # _ \<Rightarrow>
          if deleted item then hardDeleteBudgetItem i rows
          else insertOrReplace (item\<lparr>synced := True\<rparr>) rows) j =
   (if j = i
    then (case selectById rows i of
            [] \<Rightarrow> []
          | item # others \<Rightarrow>
              if deleted item then [] else map (\<lambda>_. item\<lparr>synced := True\<rparr>) (item # others))
    else selectById rows j)"
proof (cases "selectById rows i")
  case Nil
  then show ?thesis by simp
next
  case (Cons item others)
  then have "item_id item = i" using selectById_Cons_D by blast
  with Cons show ?thesis
    by (simp add: hardDeleteBudgetItem_def selectById_deleteById selectById_insertOrReplace)
qed

lemma markItemsAsSynced_select:
  "selectById (markItemsAsSynced ids rows) j =
     (if j \<in> set ids
      then (case selectById rows j of
              [] \<Rightarrow> []
            | item # others \<Rightarrow>
                if deleted item then [] else map (\<lambda>_. item\<lparr>synced := True\<rparr>) (item # others))
      else selectById rows j)"
proof (induction ids arbitrary: rows)
  case Nil
  show ?case by simp
next
  case (Cons i ids)
  show ?case
    unfolding markItemsAsSynced.simps Cons.IH markItemsAsSynced_step_select
    by (auto split: list.splits)
qed

lemma primary_key_markItemsAsSynced:
  "primary_key rows \<Longrightarrow> primary_key (markItemsAsSynced ids rows)"
proof (induction ids arbitrary: rows)
  case Nil
  then show ?case by simp
next
  case (Cons i ids)
  from Cons.prems show ?case
    by (auto intro!: Cons.IH primary_key_insertOrReplace primary_key_deleteById
        simp: hardDeleteBudgetItem_def split: list.splits)
qed

subsection \<open>Updating a record\<close>

text \<open>
  C4, as amended. For an id with no record \<^verbatim>\<open>updateBudgetItem\<close> returns \<^verbatim>\<open>null\<close> and leaves
  the table as it is. For an id with a record it returns the record with the properties
  of the partial argument spread over it, except that the id stays the one asked for,
  \<open>synced\<close> is false and \<open>updatedAt\<close> is the time of the call; the table then holds the
  returned record under that id and every other row is as before. \<open>createdAt\<close> is the
  existing one whenever the partial argument carries no \<open>createdAt\<close>; a \<open>createdAt\<close> in
  the partial argument replaces it.
\<close>

theorem updateBudgetItem_merges:
  "(selectById rows i = [] \<longrightarrow> updateBudgetItem now i updates rows = (None, rows)) \<and>
   (selectById rows i = existing # others \<longrightarrow>
      (\<exists>u. fst (updateBudgetItem now i updates rows) = Some u \<and>
           item_id u = i \<and> item_id u = item_id existing \<and>
           synced u = False \<and> updatedAt u = DateMs now \<and>
           category u = spread (category existing) (upd_category updates) \<and>
           description u = spread (description existing) (upd_description updates) \<and>
           amount u = spread (amount existing) (upd_amount updates) \<and>
           item_type u = spread (item_type existing) (upd_type updates) \<and>
           date u = spread (date existing) (upd_date updates) \<and>
           deleted u = spread (deleted existing) (upd_deleted updates) \<and>
           createdAt u = spread (createdAt existing) (upd_createdAt updates) \<and>
           (upd_createdAt updates = None \<longrightarrow> createdAt u = createdAt existing) \<and>
           (\<forall>j. selectById (snd (updateBudgetItem now i updates rows)) j =
                  (if j = i then map (\<lambda>_. u) (selectById rows i) else selectById rows j))))"
proof (intro conjI impI)
  assume "selectById rows i = []"
  then show "updateBudgetItem now i updates rows = (None, rows)"
    by (rule updateBudgetItem_absent)
next
  assume ex: "selectById rows i = existing # others"
  then have id: "item_id existing = i"
    using selectById_Cons_D by blast
  let ?u = "\<lparr>item_id = i,
            category = spread (category existing) (upd_category updates),
            description = spread (description existing) (upd_description updates),
            amount = spread (amount existing) (upd_amount updates),
            item_type = spread (item_type existing) (upd_type updates),
            date = spread (date existing) (upd_date updates),
            synced = False,
            updatedAt = DateMs now,
            createdAt = spread (createdAt existing) (upd_createdAt updates),
            deleted = spread (deleted existing) (upd_deleted updates)\<rparr>"
  have sel: "\<forall>j. selectById (map (\<lambda>r. if item_id r = i then ?u else r) rows) j =
                (if j = i then map (\<lambda>_. ?u) (selectById rows i) else selectById rows j)"
    using selectById_replace [of ?u rows] by simp
  show "\<exists>u. fst (updateBudgetItem now i updates rows) = Some u \<and>
           item_id u = i \<and> item_id u = item_id existing \<and>
           synced u = False \<and> updatedAt u = DateMs now \<and>
           category u = spread (category existing) (upd_category updates) \<and>
           description u = spread (description existing) (upd_description updates) \<and>
           amount u = spread (amount existing) (upd_amount updates) \<and>
           item_type u = spread (item_type existing) (upd_type updates) \<and>
           date u = spread (date existing) (upd_date updates) \<and>
           deleted u = spread (deleted existing) (upd_deleted updates) \<and>
           createdAt u = spread (createdAt existing) (upd_createdAt updates) \<and>
           (upd_createdAt updates = None \<longrightarrow> createdAt u = createdAt existing) \<and>
           (\<forall>j. selectById (snd (updateBudgetItem now i updates rows)) j =
                  (if j = i then map (\<lambda>_. u) (selectById rows i) else selectById rows j))"
    using sel id
    by (intro exI [of _ ?u]) (simp add: updateBudgetItem_present [OF ex])
qed

theorem updateBudgetItem_merges_witness:
  "selectById [sample_local] ''a'' = [sample_local] \<and>
   upd_createdAt (no_updates\<lparr>upd_amount := Some 250\<rparr>) = None \<and>
   map_option amount
     (fst (updateBudgetItem 9000 ''a'' (no_updates\<lparr>upd_amount := Some 250\<rparr>) [sample_local]))
     = Some 250 \<and>
   map_option createdAt
     (fst (updateBudgetItem 9000 ''a'' (no_updates\<lparr>upd_amount := Some 250\<rparr>) [sample_local]))
     = Some (createdAt sample_local) \<and>
   map_option updatedAt
     (fst (updateBudgetItem 9000 ''a'' (no_updates\<lparr>upd_amount := Some 250\<rparr>) [sample_local]))
     = Some (DateMs 9000) \<and>
   selectById [sample_local] ''zz'' = [] \<and>
   updateBudgetItem 9000 ''zz'' (no_updates\<lparr>upd_amount := Some 250\<rparr>) [sample_local]
     = (None, [sample_local])"
  using updateBudgetItem_merges
      [where rows = "[sample_local]" and i = "''a''" and now = 9000
         and updates = "no_updates\<lparr>upd_amount := Some 250\<rparr>"
         and existing = sample_local and others = "[]"]
    updateBudgetItem_merges
      [where rows = "[sample_local]" and i = "''zz''" and now = 9000
         and updates = "no_updates\<lparr>upd_amount := Some 250\<rparr>"
         and existing = sample_local and others = "[]"]
  by (auto simp: sample_local_def selectById_def no_updates_def)

text \<open>
  The claim as stated fails where the partial argument carries a \<open>createdAt\<close>: the record
  returned has that creation time, not the one of the existing record.
\<close>

theorem updateBudgetItem_createdAt_counterexample:
  "selectById [sample_local] ''a'' = [sample_local] \<and>
   createdAt sample_local = DateMs 0 \<and>
   map_option createdAt
     (fst (updateBudgetItem 9000 ''a'' (no_updates\<lparr>upd_createdAt := Some (DateMs 42)\<rparr>) [sample_local]))
     = Some (DateMs 42)"
  by (simp add: sample_local_def selectById_def updateBudgetItem_def no_updates_def
        insertOrReplace_def Let_def)

subsection \<open>Marking records as synced\<close>

text \<open>
  C5. After \<^verbatim>\<open>markItemsAsSynced ids\<close> on a table that respects its primary key: for an id
  of the list whose record was marked deleted there is no row any more; for an id of the
  list whose record was not deleted the row is that record with \<open>synced\<close> set and nothing
  else changed; an id of the list without a record still has none; every id outside the
  list keeps its row. The primary key is kept. And for any table: adding an item,
  soft-deleting it and marking it synced leaves no row with its id.
\<close>

theorem markItemsAsSynced_spec:
  "(primary_key rows \<longrightarrow>
      primary_key (markItemsAsSynced ids rows) \<and>
      (\<forall>j. selectById (markItemsAsSynced ids rows) j =
         (if j \<in> set ids
          then (case selectById rows j of
                  [] \<Rightarrow> []
                | item # _ \<Rightarrow> if deleted item then [] else [item\<lparr>synced := True\<rparr>])
          else selectById rows j))) \<and>
   selectById
     (markItemsAsSynced [newId]
        (snd (deleteBudgetItem tDelete newId
           (snd (addBudgetItem newId tUpdated tCreated input rows))))) newId = []"
proof (intro conjI impI allI)
  assume pk: "primary_key rows"
  then show "primary_key (markItemsAsSynced ids rows)"
    by (rule primary_key_markItemsAsSynced)
  fix j
  show "selectById (markItemsAsSynced ids rows) j =
         (if j \<in> set ids
          then (case selectById rows j of
                  [] \<Rightarrow> []
                | item # _ \<Rightarrow> if deleted item then [] else [item\<lparr>synced := True\<rparr>])
          else selectById rows j)"
  proof (cases "selectById rows j")
    case Nil
    then show ?thesis by (simp add: markItemsAsSynced_select)
  next
    case (Cons item others)
    with pk have "others = []" by (rule primary_key_select)
    with Cons show ?thesis by (simp add: markItemsAsSynced_select)
  qed
next
  let ?added = "snd (addBudgetItem newId tUpdated tCreated input rows)"
  have "selectById ?added newId \<noteq> []"
    by (simp add: addBudgetItem_def Let_def selectById_insertOrReplace)
  then obtain x xs where added: "selectById ?added newId = x # xs"
    by (cases "selectById ?added newId") auto
  let ?removed = "snd (deleteBudgetItem tDelete newId ?added)"
  obtain u where u: "updateBudgetItem tDelete newId
        (no_updates\<lparr>upd_deleted := Some True, upd_synced := Some False\<rparr>) ?added
      = (Some u, map (\<lambda>r. if item_id r = newId then u else r) ?added)"
    and du: "deleted u" and iu: "item_id u = newId"
    using updateBudgetItem_present [OF added] by (simp add: no_updates_def)
  then have rem: "?removed = map (\<lambda>r. if item_id r = item_id u then u else r) ?added"
    by (simp add: deleteBudgetItem_def)
  have "selectById ?removed newId = map (\<lambda>_. u) (x # xs)"
    unfolding rem using selectById_replace [of u ?added newId] iu added by simp
  then have "(case selectById ?removed newId of
               [] \<Rightarrow> []
             | item # others \<Rightarrow>
                 if deleted item then [] else map (\<lambda>_. item\<lparr>synced := True\<rparr>) (item # others))
             = []"
    using du by simp
  then show "selectById (markItemsAsSynced [newId] ?removed) newId = []"
    by (simp only: markItemsAsSynced_select) simp
qed

theorem markItemsAsSynced_spec_witness:
  "primary_key [sample_local, sample_local\<lparr>item_id := ''b'', deleted := True\<rparr>] \<and>
   markItemsAsSynced [''a'', ''b'', ''c'']
       [sample_local, sample_local\<lparr>item_id := ''b'', deleted := True\<rparr>]
     = [sample_local\<lparr>synced := True\<rparr>] \<and>
   selectById
     (markItemsAsSynced [''a'', ''b'', ''c'']
        [sample_local, sample_local\<lparr>item_id := ''b'', deleted := True\<rparr>]) ''b'' = []"
  using markItemsAsSynced_spec
      [where rows = "[sample_local, sample_local\<lparr>item_id := ''b'', deleted := True\<rparr>]"
         and ids = "[''a'', ''b'', ''c'']"]
  by (simp add: sample_local_def primary_key_def selectById_def insertOrReplace_def
        hardDeleteBudgetItem_def deleteById_def)

text \<open>
  C7. Marking one id as synced twice gives the same table as marking it once: the second
  call finds either no row or a row that is already synced.
\<close>

theorem markItemsAsSynced_idempotent:
  "markItemsAsSynced [i] (markItemsAsSynced [i] rows) = markItemsAsSynced [i] rows"
proof (cases "selectById rows i")
  case Nil
  then show ?thesis by simp
next
  case (Cons item others)
  then have id: "item_id item = i" and mem: "item \<in> set rows"
    using selectById_Cons_D by blast+
  show ?thesis
  proof (cases "deleted item")
    case True
    with Cons show ?thesis
      by (simp add: hardDeleteBudgetItem_def selectById_deleteById)
  next
    case False
    let ?it = "item\<lparr>synced := True\<rparr>"
    let ?rows = "map (\<lambda>r. if item_id r = i then ?it else r) rows"
    from mem id have present: "i \<in> item_id ` set rows" by force
    with Cons False id have first: "markItemsAsSynced [i] rows = ?rows"
      by (simp add: insertOrReplace_def)
    have sel: "selectById ?rows i = map (\<lambda>_. ?it) (item # others)"
      using selectById_replace [of ?it rows i] id Cons by simp
    have "map item_id ?rows = map item_id rows"
      using id by (induction rows) auto
    then have "set (map item_id ?rows) = set (map item_id rows)"
      by (rule arg_cong)
    with present have present': "i \<in> item_id ` set ?rows"
      by (simp only: set_map)
    have "markItemsAsSynced [i] ?rows = map (\<lambda>r. if item_id r = i then ?it else r) ?rows"
      using sel False id present' by (simp add: insertOrReplace_def)
    also have "\<dots> = ?rows"
      using id by (induction rows) auto
    finally show ?thesis by (simp only: first)
  qed
qed

section \<open>Resolving conflicts against the store\<close>

lemma resolveConflicts_single_update:
  assumes "selectById rows (item_id (localItem r)) = existing # others"
    and "\<not> (resolution r = keep_server \<and> srv_deleted (serverItem r))"
  shows "resolveConflicts parse [(r, tMerge, tUpdate)] rows =
     map (\<lambda>x. if item_id x = item_id (localItem r)
               then \<lparr>item_id = item_id (localItem r),
                     category = category (applyResolution parse tMerge r),
                     description = description (applyResolution parse tMerge r),
                     amount = amount (applyResolution parse tMerge r),
                     item_type = item_type (applyResolution parse tMerge r),
                     date = date (applyResolution parse tMerge r),
                     synced = False,
                     updatedAt = DateMs tUpdate,
                     createdAt = createdAt existing,
                     deleted = deleted (applyResolution parse tMerge r)\<rparr>
               else x) rows"
proof -
  from assms(2) have c: "(resolution r = keep_server \<and> srv_deleted (serverItem r)) = False"
    by simp
  show ?thesis
    by (simp add: c Let_def updateBudgetItem_present [OF assms(1)] no_updates_def)
qed

lemma resolveConflicts_keep_server_unsynced:
  assumes "selectById rows (item_id (localItem r)) = existing # others"
    and "resolution r = keep_server" and "\<not> srv_deleted (serverItem r)"
  shows "selectById (resolveConflicts parse [(r, tMerge, tUpdate)] rows) (item_id (localItem r)) =
     map (\<lambda>_. (serverItemToLocal parse (serverItem r))
                 \<lparr>item_id := item_id (localItem r), synced := False,
                  updatedAt := DateMs tUpdate, createdAt := createdAt existing\<rparr>)
       (existing # others)"
proof -
  let ?u = "(serverItemToLocal parse (serverItem r))
                 \<lparr>item_id := item_id (localItem r), synced := False,
                  updatedAt := DateMs tUpdate, createdAt := createdAt existing\<rparr>"
  from assms(3) have np: "\<not> (resolution r = keep_server \<and> srv_deleted (serverItem r))"
    by simp
  have "resolveConflicts parse [(r, tMerge, tUpdate)] rows =
          map (\<lambda>x. if item_id x = item_id ?u then ?u else x) rows"
    unfolding resolveConflicts_single_update [OF assms(1) np] using assms(2,3)
    by (simp add: applyResolution_def serverItemToLocal_def)
  then show ?thesis
    using selectById_replace [of ?u rows "item_id (localItem r)"] assms(1) by simp
qed

text \<open>
  C2. The specification has a conflict resolved as \<open>keep_server\<close> (server copy alive) end
  as the server record in local shape with \<open>synced = true\<close>, out of the unsynced set.
  \<^verbatim>\<open>resolveConflicts\<close> does hand \<^verbatim>\<open>synced: finalItem.synced\<close> to \<^verbatim>\<open>updateBudgetItem\<close>, which
  overrides it: by \<open>resolveConflicts_keep_server_unsynced\<close> the stored record is always
  unsynced, stamped with the time of the update and left with the local creation time.
  On the sample data: the stored record differs from \<open>serverItemToLocal\<close> of the server
  copy in \<open>synced\<close> and \<open>updatedAt\<close>, it is in the unsynced set, and the next pass reports
  it as a \<open>both_modified\<close> conflict again.
\<close>

theorem resolveConflicts_keep_server_stays_unsynced:
  "resolveConflicts sample_parse
     [(\<lparr>localItem = sample_local, serverItem = sample_server, conflictType = both_modified,
        resolution = keep_server, mergedItem = None\<rparr>, 9000, 9000)]
     [sample_local]
   = [\<lparr>item_id = ''a'', category = ''food'', description = ''dinner'', amount = 200,
       item_type = expense, date = DateMs 0, synced = False, updatedAt = DateMs 9000,
       createdAt = DateMs 0, deleted = False\<rparr>] \<and>
   serverItemToLocal sample_parse sample_server
   = \<lparr>item_id = ''a'', category = ''food'', description = ''dinner'', amount = 200,
      item_type = expense, date = DateMs 0, synced = True, updatedAt = DateMs 5000,
      createdAt = DateMs 0, deleted = False\<rparr> \<and>
   getUnsyncedItems
     (resolveConflicts sample_parse
        [(\<lparr>localItem = sample_local, serverItem = sample_server, conflictType = both_modified,
           resolution = keep_server, mergedItem = None\<rparr>, 9000, 9000)]
        [sample_local])
   = [\<lparr>item_id = ''a'', category = ''food'', description = ''dinner'', amount = 200,
       item_type = expense, date = DateMs 0, synced = False, updatedAt = DateMs 9000,
       createdAt = DateMs 0, deleted = False\<rparr>] \<and>
   map_option conflictType
     (detectConflict sample_parse
        \<lparr>item_id = ''a'', category = ''food'', description = ''dinner'', amount = 200,
         item_type = expense, date = DateMs 0, synced = False, updatedAt = DateMs 9000,
         createdAt = DateMs 0, deleted = False\<rparr>
        sample_server)
   = Some both_modified"
  by (simp add: sample_parse_def sample_local_def sample_server_def applyResolution_def
        serverItemToLocal_def updateBudgetItem_def selectById_def insertOrReplace_def
        no_updates_def getUnsyncedItems_def detectConflict_def TIME_TOLERANCE_def Let_def)

text \<open>
  C10. \<^verbatim>\<open>mergeItems\<close> returns a live, unsynced item whatever the deletion flags of its
  inputs. So does \<^verbatim>\<open>applyResolution\<close> for a \<open>merge\<close> resolution without a precomputed item,
  and after \<^verbatim>\<open>resolveConflicts\<close> with such a resolution the stored record of that id is
  live and unsynced: a merge resurrects a deleted item.
\<close>

theorem mergeItems_never_deleted:
  "deleted (mergeItems parse now l s) = False \<and>
   synced (mergeItems parse now l s) = False \<and>
   (resolution r = merge \<and> mergedItem r = None \<longrightarrow>
      deleted (applyResolution parse now r) = False \<and>
      synced (applyResolution parse now r) = False \<and>
      (selectById rows (item_id (localItem r)) = existing # others \<longrightarrow>
         (\<exists>u. selectById (resolveConflicts parse [(r, now, tUpdate)] rows) (item_id (localItem r))
                = map (\<lambda>_. u) (existing # others) \<and>
              deleted u = False \<and> synced u = False)))"
proof (intro conjI impI)
  show "deleted (mergeItems parse now l s) = False"
    by (simp add: mergeItems_def Let_def)
  show "synced (mergeItems parse now l s) = False"
    by (simp add: mergeItems_def Let_def)
next
  assume m: "resolution r = merge \<and> mergedItem r = None"
  then show d: "deleted (applyResolution parse now r) = False"
    by (simp add: applyResolution_def mergeItems_def Let_def)
  from m show "synced (applyResolution parse now r) = False"
    by (simp add: applyResolution_def mergeItems_def Let_def)
  assume ex: "selectById rows (item_id (localItem r)) = existing # others"
  let ?u = "\<lparr>item_id = item_id (localItem r),
                     category = category (applyResolution parse now r),
                     description = description (applyResolution parse now r),
                     amount = amount (applyResolution parse now r),
                     item_type = item_type (applyResolution parse now r),
                     date = date (applyResolution parse now r),
                     synced = False,
                     updatedAt = DateMs tUpdate,
                     createdAt = createdAt existing,
                     deleted = deleted (applyResolution parse now r)\<rparr>"
  from m have np: "\<not> (resolution r = keep_server \<and> srv_deleted (serverItem r))"
    by simp
  have "resolveConflicts parse [(r, now, tUpdate)] rows =
      map (\<lambda>x. if item_id x = item_id ?u then ?u else x) rows"
    unfolding resolveConflicts_single_update [OF ex np] by simp
  then have "selectById (resolveConflicts parse [(r, now, tUpdate)] rows) (item_id (localItem r))
      = map (\<lambda>_. ?u) (existing # others)"
    using selectById_replace [of ?u rows "item_id (localItem r)"] ex by simp
  with d show "\<exists>u. selectById (resolveConflicts parse [(r, now, tUpdate)] rows) (item_id (localItem r))
                = map (\<lambda>_. u) (existing # others) \<and>
              deleted u = False \<and> synced u = False"
    by (intro exI [of _ ?u]) simp
qed

theorem mergeItems_never_deleted_witness:
  "selectById [sample_local\<lparr>deleted := True\<rparr>] ''a'' = [sample_local\<lparr>deleted := True\<rparr>] \<and>
   deleted (mergeItems sample_parse 7000 (sample_local\<lparr>deleted := True\<rparr>)
              (sample_server\<lparr>srv_deleted := True\<rparr>)) = False \<and>
   map deleted
     (resolveConflicts sample_parse
        [(\<lparr>localItem = sample_local\<lparr>deleted := True\<rparr>, serverItem = sample_server,
           conflictType = delete_local, resolution = merge, mergedItem = None\<rparr>, 7000, 9000)]
        [sample_local\<lparr>deleted := True\<rparr>])
   = [False]"
  using mergeItems_never_deleted
      [where parse = sample_parse and now = 7000 and l = "sample_local\<lparr>deleted := True\<rparr>"
         and s = "sample_server\<lparr>srv_deleted := True\<rparr>"
         and r = "\<lparr>localItem = sample_local\<lparr>deleted := True\<rparr>, serverItem = sample_server,
                   conflictType = delete_local, resolution = merge, mergedItem = None\<rparr>"
         and rows = "[sample_local\<lparr>deleted := True\<rparr>]"
         and existing = "sample_local\<lparr>deleted := True\<rparr>" and others = "[]" and tUpdate = 9000]
  by (simp add: sample_parse_def sample_local_def sample_server_def applyResolution_def
        mergeItems_def updateBudgetItem_def selectById_def insertOrReplace_def
        no_updates_def Let_def)

section \<open>Properties of the sync pass\<close>

lemma checkItems_partition:
  "checkItems parse serverItems items cs ok =
     (cs @ spec_conflicting parse serverItems items, ok @ spec_safe parse serverItems items)"
  by (induction items arbitrary: cs ok)
     (auto simp: spec_conflicting_def spec_safe_def List.map_filter_simps split: option.splits)

lemma spec_conflicting_nonempty:
  "l \<in> set items \<Longrightarrow> serverItems (item_id l) = Some s \<Longrightarrow> detectConflict parse l s \<noteq> None \<Longrightarrow>
   spec_conflicting parse serverItems items \<noteq> []"
  by (induction items)
     (auto simp: spec_conflicting_def List.map_filter_simps split: option.splits)

lemma syncItemsToServer_conflicts:
  assumes "spec_conflicting parse (fetch (map item_id items)) items \<noteq> []"
  shows "syncItemsToServer parse fetch push items =
     (\<lparr>success = False, syncedIds = [], failedIds = [],
       conflicts = spec_conflicting parse (fetch (map item_id items)) items,
       error = Some (ConflictsDetected (length (spec_conflicting parse (fetch (map item_id items)) items)))\<rparr>,
      [])"
  using assms by (simp add: syncItemsToServer_def checkItems_partition Let_def)

text \<open>
  C3. When \<^verbatim>\<open>detectConflict\<close> reports a conflict for at least one candidate of a pass
  that runs (no pass in progress, network available), the pass posts nothing to the
  server, leaves the table as it is, so no \<open>synced\<close> flag changes, and returns all the
  conflicts detected, in candidate order; the same list becomes the hook's conflict state.
\<close>

theorem triggerSync_stops_on_conflict:
  assumes "\<not> busy" and "online"
    and "\<exists>l \<in> set (getUnsyncedItems (budgetItems w)). \<exists>s.
           fetch (map item_id (getUnsyncedItems (budgetItems w))) (item_id l) = Some s \<and>
           detectConflict parse l s \<noteq> None"
  shows "snd (syncItemsToServer parse fetch push (getUnsyncedItems (budgetItems w))) = [] \<and>
         posted (snd (triggerSync parse fetch push busy online now w)) = posted w \<and>
         budgetItems (snd (triggerSync parse fetch push busy online now w)) = budgetItems w \<and>
         conflicts (fst (triggerSync parse fetch push busy online now w)) =
           spec_conflicting parse (fetch (map item_id (getUnsyncedItems (budgetItems w))))
             (getUnsyncedItems (budgetItems w)) \<and>
         conflicts (fst (triggerSync parse fetch push busy online now w)) \<noteq> [] \<and>
         conflictsState (snd (triggerSync parse fetch push busy online now w)) =
           conflicts (fst (triggerSync parse fetch push busy online now w)) \<and>
         success (fst (triggerSync parse fetch push busy online now w)) = False \<and>
         syncedIds (fst (triggerSync parse fetch push busy online now w)) = []"
proof -
  let ?items = "getUnsyncedItems (budgetItems w)"
  let ?cs = "spec_conflicting parse (fetch (map item_id ?items)) ?items"
  from assms(3) have ne: "?cs \<noteq> []"
    using spec_conflicting_nonempty by blast
  then have items: "?items \<noteq> []"
    by (auto simp: spec_conflicting_def List.map_filter_simps)
  have sync: "syncItemsToServer parse fetch push ?items =
     (\<lparr>success = False, syncedIds = [], failedIds = [], conflicts = ?cs,
       error = Some (ConflictsDetected (length ?cs))\<rparr>, [])"
    using ne by (rule syncItemsToServer_conflicts [where fetch = fetch and items = "?items"])
  have "triggerSync parse fetch push busy online now w =
          (\<lparr>success = False, syncedIds = [], failedIds = [], conflicts = ?cs,
            error = Some (ConflictsDetected (length ?cs))\<rparr>,
           w\<lparr>syncError := None, conflictsState := ?cs\<rparr>)"
    using assms(1,2) items ne by (simp add: triggerSync_def Let_def sync)
  with ne sync show ?thesis by simp
qed


theorem triggerSync_stops_on_conflict_witness:
  "sample_local \<in> set (getUnsyncedItems (budgetItems sample_world)) \<and>
   sample_fetch (map item_id (getUnsyncedItems (budgetItems sample_world))) (item_id sample_local)
     = Some sample_server \<and>
   detectConflict sample_parse sample_local sample_server \<noteq> None \<and>
   fst (triggerSync sample_parse sample_fetch sample_push False True 9000 sample_world) =
     \<lparr>success = False, syncedIds = [], failedIds = [],
      conflicts = [\<lparr>localItem = sample_local, serverItem = sample_server,
                    conflictType = both_modified\<rparr>],
      error = Some (ConflictsDetected 1)\<rparr> \<and>
   posted (snd (triggerSync sample_parse sample_fetch sample_push False True 9000 sample_world))
     = [] \<and>
   budgetItems (snd (triggerSync sample_parse sample_fetch sample_push False True 9000 sample_world))
     = [sample_local]"
proof -
  have unsynced: "getUnsyncedItems (budgetItems sample_world) = [sample_local]"
    by (simp add: getUnsyncedItems_def sample_world_def sample_local_def)
  have known: "sample_fetch [item_id sample_local] (item_id sample_local) = Some sample_server"
    by (simp add: sample_fetch_def sample_local_def)
  have conflict: "detectConflict sample_parse sample_local sample_server =
      Some \<lparr>localItem = sample_local, serverItem = sample_server, conflictType = both_modified\<rparr>"
    by (simp add: detectConflict_def sample_parse_def sample_local_def sample_server_def
          TIME_TOLERANCE_def)
  have h: "\<exists>l \<in> set (getUnsyncedItems (budgetItems sample_world)). \<exists>s.
             sample_fetch (map item_id (getUnsyncedItems (budgetItems sample_world))) (item_id l)
               = Some s \<and>
             detectConflict sample_parse l s \<noteq> None"
    using conflict known by (simp add: unsynced)
  have cs: "spec_conflicting sample_parse (sample_fetch [item_id sample_local]) [sample_local] =
      [\<lparr>localItem = sample_local, serverItem = sample_server, conflictType = both_modified\<rparr>]"
    using conflict known by (simp add: spec_conflicting_def List.map_filter_simps)
  from triggerSync_stops_on_conflict
         [where busy = False and online = True and w = sample_world and fetch = sample_fetch
            and parse = sample_parse and push = sample_push and now = 9000,
          OF _ _ h]
  have "posted (snd (triggerSync sample_parse sample_fetch sample_push False True 9000 sample_world))
          = posted sample_world \<and>
        budgetItems (snd (triggerSync sample_parse sample_fetch sample_push False True 9000 sample_world))
          = budgetItems sample_world \<and>
        conflicts (fst (triggerSync sample_parse sample_fetch sample_push False True 9000 sample_world))
          = [\<lparr>localItem = sample_local, serverItem = sample_server, conflictType = both_modified\<rparr>]"
    by (simp add: unsynced cs)
  moreover have "fst (triggerSync sample_parse sample_fetch sample_push False True 9000 sample_world) =
     \<lparr>success = False, syncedIds = [], failedIds = [],
      conflicts = [\<lparr>localItem = sample_local, serverItem = sample_server,
                    conflictType = both_modified\<rparr>],
      error = Some (ConflictsDetected 1)\<rparr>"
    using conflict known
    by (simp add: triggerSync_def unsynced syncItemsToServer_def Let_def)
  ultimately show ?thesis
    using unsynced conflict known by (simp add: sample_world_def)
qed

section \<open>Properties of the outbox replay\<close>

lemma replayQueue_log:
  "\<exists>as. attempts (replayQueue api queue st) = attempts st @ as \<and>
        map fst as = queue \<and>
        outbox (replayQueue api queue st) =
          filter (\<lambda>r. mut_id r \<notin> mut_id ` fst ` set (filter snd as)) (outbox st) \<and>
        successCount (replayQueue api queue st) = successCount st + length (filter snd as) \<and>
        failCount (replayQueue api queue st) = failCount st + length (filter (\<lambda>a. \<not> snd a) as)"
proof (induction queue arbitrary: st)
  case Nil
  show ?case by simp
next
  case (Cons item queue)
  obtain b srv' where run:
    "executeMutationHelper api (remote st) (mutationKey item) (variables item) = (b, srv')"
    by (cases "executeMutationHelper api (remote st) (mutationKey item) (variables item)")
  show ?case
  proof (cases b)
    case True
    let ?st = "st\<lparr>outbox := removeMutationFromQueue (mut_id item) (outbox st),
                  remote := srv', successCount := successCount st + 1,
                  attempts := attempts st @ [(item, True)]\<rparr>"
    from Cons.IH [of ?st] obtain as where as:
      "attempts (replayQueue api queue ?st) = attempts ?st @ as" "map fst as = queue"
      "outbox (replayQueue api queue ?st) =
          filter (\<lambda>r. mut_id r \<notin> mut_id ` fst ` set (filter snd as)) (outbox ?st)"
      "successCount (replayQueue api queue ?st) = successCount ?st + length (filter snd as)"
      "failCount (replayQueue api queue ?st) = failCount ?st + length (filter (\<lambda>a. \<not> snd a) as)"
      by blast
    have step: "replayQueue api (item # queue) st = replayQueue api queue ?st"
      using run True by simp
    show ?thesis
      unfolding step using as
      by (intro exI [of _ "(item, True) # as"])
         (auto simp: removeMutationFromQueue_def intro: filter_cong)
  next
    case False
    let ?st = "st\<lparr>remote := srv', failCount := failCount st + 1,
                  attempts := attempts st @ [(item, False)]\<rparr>"
    from Cons.IH [of ?st] obtain as where as:
      "attempts (replayQueue api queue ?st) = attempts ?st @ as" "map fst as = queue"
      "outbox (replayQueue api queue ?st) =
          filter (\<lambda>r. mut_id r \<notin> mut_id ` fst ` set (filter snd as)) (outbox ?st)"
      "successCount (replayQueue api queue ?st) = successCount ?st + length (filter snd as)"
      "failCount (replayQueue api queue ?st) = failCount ?st + length (filter (\<lambda>a. \<not> snd a) as)"
      by blast
    have step: "replayQueue api (item # queue) st = replayQueue api queue ?st"
      using run False by simp
    show ?thesis
      unfolding step using as
      by (intro exI [of _ "(item, False) # as"]) auto
  qed
qed

lemma syncNow_log:
  assumes "online" and "\<not> isSyncing"
  shows "map fst (attempts (syncNow api online isSyncing q srv)) = getQueuedMutations q \<and>
         outbox (syncNow api online isSyncing q srv) =
           filter (\<lambda>r. mut_id r \<notin> mut_id ` fst `
                      set (filter snd (attempts (syncNow api online isSyncing q srv)))) q \<and>
         successCount (syncNow api online isSyncing q srv) =
           length (filter snd (attempts (syncNow api online isSyncing q srv))) \<and>
         failCount (syncNow api online isSyncing q srv) =
           length (filter (\<lambda>a. \<not> snd a) (attempts (syncNow api online isSyncing q srv)))"
proof (cases "getQueuedMutations q = []")
  case True
  then have "q = []"
    by (metis getQueuedMutations_def length_0_conv length_sort)
  with assms show ?thesis
    by (simp add: syncNow_def getQueuedMutations_def)
next
  case False
  let ?st0 = "\<lparr>outbox = q, remote = srv, successCount = 0, failCount = 0, attempts = []\<rparr>"
  from False assms have run:
    "syncNow api online isSyncing q srv = replayQueue api (getQueuedMutations q) ?st0"
    by (simp add: syncNow_def Let_def)
  from replayQueue_log [of api "getQueuedMutations q" ?st0]
  show ?thesis unfolding run by auto
qed


text \<open>
  C8, as amended. A replay that runs (network available, none in progress) hands the
  queued entries to the API one by one in ascending order of \<open>createdAt\<close>, entries of
  equal time in row order, whatever the outcomes: a failure does not stop the entries
  after it. This is the order of enqueueing whenever the creation times do not decrease
  along the rows, that is, whenever the clock did not go back between two enqueues.
  Every entry whose call returned is removed from the queue; under the primary key the
  queue afterwards holds exactly the entries whose call threw. The two counters count
  the calls that returned and the calls that threw.
\<close>

theorem syncNow_replays_by_createdAt:
  assumes "online" and "\<not> isSyncing"
  shows "map fst (attempts (syncNow api online isSyncing q srv)) = sort_key mut_createdAt q \<and>
         sorted (map mut_createdAt (map fst (attempts (syncNow api online isSyncing q srv)))) \<and>
         (sorted (map mut_createdAt q) \<longrightarrow>
            map fst (attempts (syncNow api online isSyncing q srv)) = q) \<and>
         (\<forall>r. (r, True) \<in> set (attempts (syncNow api online isSyncing q srv)) \<longrightarrow>
              r \<notin> set (outbox (syncNow api online isSyncing q srv))) \<and>
         (distinct (map mut_id q) \<longrightarrow>
            outbox (syncNow api online isSyncing q srv) =
              filter (\<lambda>r. (r, False) \<in> set (attempts (syncNow api online isSyncing q srv))) q) \<and>
         successCount (syncNow api online isSyncing q srv) =
           length (filter snd (attempts (syncNow api online isSyncing q srv))) \<and>
         failCount (syncNow api online isSyncing q srv) =
           length (filter (\<lambda>a. \<not> snd a) (attempts (syncNow api online isSyncing q srv)))"
proof -
  let ?R = "syncNow api online isSyncing q srv"
  note log = syncNow_log [OF assms, of api q srv]
  from log have order: "map fst (attempts ?R) = sort_key mut_createdAt q"
    by (simp add: getQueuedMutations_def)
  from log have out: "outbox ?R =
      filter (\<lambda>r. mut_id r \<notin> mut_id ` fst ` set (filter snd (attempts ?R))) q"
    by blast
  have asc: "sorted (map mut_createdAt (map fst (attempts ?R)))"
    unfolding order by (rule sorted_sort_key)
  have fifo: "sorted (map mut_createdAt q) \<longrightarrow> map fst (attempts ?R) = q"
    unfolding order by (simp add: sort_key_id_if_sorted)
  have removed: "\<forall>r. (r, True) \<in> set (attempts ?R) \<longrightarrow> r \<notin> set (outbox ?R)"
  proof (intro allI impI)
    fix r assume "(r, True) \<in> set (attempts ?R)"
    then have "mut_id r \<in> mut_id ` fst ` set (filter snd (attempts ?R))"
      by force
    then show "r \<notin> set (outbox ?R)"
      by (subst out) simp
  qed
  have kept: "distinct (map mut_id q) \<longrightarrow>
      outbox ?R = filter (\<lambda>r. (r, False) \<in> set (attempts ?R)) q"
  proof
    assume d: "distinct (map mut_id q)"
    then have inj: "inj_on mut_id (set q)" and dq: "distinct q"
      by (simp_all add: distinct_map)
    from dq have "distinct (sort_key mut_createdAt q)" by simp
    then have dfst: "distinct (map fst (attempts ?R))" by (simp only: order)
    have members: "fst ` set (attempts ?R) = set q"
      using arg_cong [OF order, of set] by simp
    have "filter (\<lambda>r. mut_id r \<notin> mut_id ` fst ` set (filter snd (attempts ?R))) q =
          filter (\<lambda>r. (r, False) \<in> set (attempts ?R)) q"
    proof (rule filter_cong [OF refl])
      fix r assume r: "r \<in> set q"
      show "(mut_id r \<notin> mut_id ` fst ` set (filter snd (attempts ?R))) =
            ((r, False) \<in> set (attempts ?R))"
      proof
        assume no: "mut_id r \<notin> mut_id ` fst ` set (filter snd (attempts ?R))"
        from r members obtain b where b: "(r, b) \<in> set (attempts ?R)" by force
        with no have "\<not> b" by force
        with b show "(r, False) \<in> set (attempts ?R)" by simp
      next
        assume f: "(r, False) \<in> set (attempts ?R)"
        show "mut_id r \<notin> mut_id ` fst ` set (filter snd (attempts ?R))"
        proof
          assume "mut_id r \<in> mut_id ` fst ` set (filter snd (attempts ?R))"
          then obtain r' where r': "(r', True) \<in> set (attempts ?R)" "mut_id r' = mut_id r"
            by force
          then have "r' \<in> set q" using members by force
          with inj r r'(2) have "r' = r" by (auto dest: inj_onD)
          with r'(1) f dfst show False
            using eq_key_imp_eq_value by fastforce
        qed
      qed
    qed
    with out show "outbox ?R = filter (\<lambda>r. (r, False) \<in> set (attempts ?R)) q"
      by simp
  qed
  from order asc fifo removed kept log show ?thesis by blast
qed

theorem syncNow_replays_by_createdAt_witness:
  "sorted (map mut_createdAt sample_outbox) \<and>
   distinct (map mut_id sample_outbox) \<and>
   map mutationKey sample_outbox = [''createBudget'', ''updateBudget''] \<and>
   attempts (syncNow sample_api_create_fails True False sample_outbox ()) =
     [(\<lparr>mut_id = ''m1'', mutationKey = ''createBudget'', variables = (), mut_createdAt = 10\<rparr>, False),
      (\<lparr>mut_id = ''m2'', mutationKey = ''updateBudget'', variables = (), mut_createdAt = 20\<rparr>, True)] \<and>
   outbox (syncNow sample_api_create_fails True False sample_outbox ()) =
     [\<lparr>mut_id = ''m1'', mutationKey = ''createBudget'', variables = (), mut_createdAt = 10\<rparr>]"
  using syncNow_replays_by_createdAt
      [where online = True and isSyncing = False and api = sample_api_create_fails
         and q = sample_outbox and srv = "()"]
  by (simp add: sample_outbox_def sample_api_create_fails_def queueMutation_def syncNow_def
        getQueuedMutations_def Let_def executeMutationHelper_def mutation_keys_def
        removeMutationFromQueue_def)

text \<open>
  Replay order is not enqueue order when the clock goes back: \<open>createBudget\<close> is enqueued
  first, at time 10, \<open>updateBudget\<close> second, at time 5, and the replay runs the update
  first.
\<close>

theorem syncNow_fifo_counterexample:
  "map mutationKey sample_outbox_clock_back = [''createBudget'', ''updateBudget''] \<and>
   map mutationKey (map fst (attempts (syncNow sample_api True False sample_outbox_clock_back ())))
     = [''updateBudget'', ''createBudget'']"
  by (simp add: sample_outbox_clock_back_def sample_api_def queueMutation_def syncNow_def
        getQueuedMutations_def Let_def executeMutationHelper_def mutation_keys_def
        removeMutationFromQueue_def)

end
